theory Spec2Isabelle
  imports Complex_Main
begin

section \<open>One-player Pong: the simulation core of \<^verbatim>\<open>w05Assignment.py\<close>\<close>

text \<open>
  The program is a single Python module: the classes \<^verbatim>\<open>Point\<close>, \<^verbatim>\<open>Velocity\<close>,
  \<^verbatim>\<open>Ball\<close>, \<^verbatim>\<open>Paddle\<close> and the window class \<^verbatim>\<open>Pong\<close>. Every class is a record here,
  every method a function from the object (and, where it draws random numbers, the state of
  the random module) to the updated object.

  Numbers. The coordinates, the velocities and the half extents are Python numbers that mix
  \<^verbatim>\<open>int\<close> and \<^verbatim>\<open>float\<close> (\<^verbatim>\<open>PADDLE_HEIGHT / 2\<close> is a true division). They are modelled
  as \<^typ>\<open>real\<close>: every value the game computes from its constants is an integer of small
  magnitude, which a float represents exactly, so no rounding takes place. A statement
  about every state is therefore a statement about every real-valued state, in exact
  arithmetic; it does not speak of NaN, of infinities or of magnitudes at which adding
  \<^verbatim>\<open>MOVE_AMOUNT\<close> would round. The module constants and the score are Python integers
  and are \<^typ>\<open>int\<close> here; \<open>of_int\<close> marks the places where Python promotes them.

  Drawing (\<^verbatim>\<open>draw\<close>, \<^verbatim>\<open>on_draw\<close>, \<^verbatim>\<open>draw_score\<close>) reads the state without
  changing it and is left out. The base class \<^verbatim>\<open>arcade.Window\<close> belongs to a library;
  its constructor, which \<^verbatim>\<open>Pong.__init__\<close> calls, is a parameter of the model.
\<close>

subsection \<open>Global constants\<close>

definition SCREEN_WIDTH :: int where "SCREEN_WIDTH = 400"
definition SCREEN_HEIGHT :: int where "SCREEN_HEIGHT = 300"
definition BALL_RADIUS :: int where "BALL_RADIUS = 10"

definition PADDLE_WIDTH :: int where "PADDLE_WIDTH = 10"
definition PADDLE_HEIGHT :: int where "PADDLE_HEIGHT = 50"
definition MOVE_AMOUNT :: int where "MOVE_AMOUNT = 4"

definition SCORE_HIT :: int where "SCORE_HIT = 1"
definition SCORE_MISS :: int where "SCORE_MISS = 5"

subsection \<open>The random module\<close>

text \<open>
  \<^verbatim>\<open>random.randint(a, b)\<close> returns \<^verbatim>\<open>a + randbelow(b - a + 1)\<close> and moves the
  generator on. The generator is the sequence of raw numbers it has still to deliver;
  \<^verbatim>\<open>randbelow(n)\<close> reduces the next raw number modulo \<open>n\<close>. The three calls of the
  program have \<open>a \<le> b\<close> (the ranges 10..290, 4..8 and 2..3), so the library's
  \<^verbatim>\<open>ValueError\<close> for an empty range has no caller.
\<close>

type_synonym rand_src = "nat \<Rightarrow> nat"

definition randint :: "int \<Rightarrow> int \<Rightarrow> rand_src \<Rightarrow> int \<times> rand_src" where
  "randint a b r = (a + int (r 0 mod nat (b - a + 1)), \<lambda>n. r (Suc n))"

subsection \<open>Point, Velocity, Ball\<close>

record Point =
  x :: real
  y :: real

record Velocity =
  dx :: real
  dy :: real

record Ball =
  center :: Point
  velocity :: Velocity

text \<open>\<^verbatim>\<open>Ball.__init__\<close>: three draws, in the order of the source.\<close>

definition Ball_init :: "rand_src \<Rightarrow> Ball \<times> rand_src" where
  "Ball_init r0 =
     (let (cy, r1) = randint BALL_RADIUS (SCREEN_HEIGHT - BALL_RADIUS) r0;
          (vx, r2) = randint MOVE_AMOUNT (2 * MOVE_AMOUNT) r1;
          (vy, r3) = randint (MOVE_AMOUNT - 2) (MOVE_AMOUNT - 1) r2
      in (\<lparr>Ball.center = \<lparr>x = of_int BALL_RADIUS, y = of_int cy\<rparr>,
           velocity = \<lparr>dx = of_int vx, dy = of_int vy\<rparr>\<rparr>, r3))"

definition advance :: "Ball \<Rightarrow> Ball" where
  "advance b =
     b\<lparr>Ball.center := (Ball.center b)
        \<lparr>x := x (Ball.center b) + dx (velocity b),
         y := y (Ball.center b) + dy (velocity b)\<rparr>\<rparr>"

definition bounce_horizontal :: "Ball \<Rightarrow> Ball" where
  "bounce_horizontal b = b\<lparr>velocity := (velocity b)\<lparr>dx := dx (velocity b) * (- 1)\<rparr>\<rparr>"

definition bounce_vertical :: "Ball \<Rightarrow> Ball" where
  "bounce_vertical b = b\<lparr>velocity := (velocity b)\<lparr>dy := dy (velocity b) * (- 1)\<rparr>\<rparr>"

definition restart :: "Ball \<Rightarrow> rand_src \<Rightarrow> Ball \<times> rand_src" where
  "restart b r0 =
     (let (cy, r1) = randint BALL_RADIUS (SCREEN_HEIGHT - BALL_RADIUS) r0;
          (vx, r2) = randint MOVE_AMOUNT (2 * MOVE_AMOUNT) r1;
          (vy, r3) = randint (MOVE_AMOUNT - 2) (MOVE_AMOUNT - 1) r2
      in (b\<lparr>Ball.center := (Ball.center b)\<lparr>x := 0, y := of_int cy\<rparr>,
            velocity := (velocity b)\<lparr>dx := of_int vx, dy := of_int vy\<rparr>\<rparr>, r3))"

subsection \<open>Paddle\<close>

record Paddle =
  center :: Point

definition Paddle_init :: Paddle where
  "Paddle_init =
     \<lparr>Paddle.center = \<lparr>x = of_int (SCREEN_WIDTH - PADDLE_WIDTH), y = of_int SCREEN_HEIGHT / 2\<rparr>\<rparr>"

definition move_up :: "Paddle \<Rightarrow> Paddle" where
  "move_up p =
     (if y (Paddle.center p) < of_int SCREEN_HEIGHT - of_int PADDLE_HEIGHT / 2
      then p\<lparr>Paddle.center := (Paddle.center p)\<lparr>y := y (Paddle.center p) + of_int MOVE_AMOUNT\<rparr>\<rparr>
      else p)"

definition move_down :: "Paddle \<Rightarrow> Paddle" where
  "move_down p =
     (if y (Paddle.center p) > of_int PADDLE_HEIGHT / 2
      then p\<lparr>Paddle.center := (Paddle.center p)\<lparr>y := y (Paddle.center p) - of_int MOVE_AMOUNT\<rparr>\<rparr>
      else p)"

subsection \<open>Pong\<close>

text \<open>
  The game object owns the ball, the paddle, the score and the two key flags. The field
  \<open>rng\<close> is the state of the random module, which \<^verbatim>\<open>Ball.restart\<close> advances.
\<close>

record Pong =
  ball :: Ball
  paddle :: Paddle
  score :: int
  holding_left :: bool
  holding_right :: bool
  rng :: rand_src

text \<open>
  \<^verbatim>\<open>Pong.__init__(width, height)\<close> first calls \<^verbatim>\<open>super().__init__(width, height)\<close>,
  the constructor of \<^verbatim>\<open>arcade.Window\<close>. That constructor is library code: it is the
  parameter \<open>window_init\<close>, which returns \<open>None\<close> when it accepts the size and \<open>Some e\<close>
  when it raises \<open>e\<close>; an exception it raises leaves \<^verbatim>\<open>Pong.__init__\<close> at once. It is
  the only statement that reads \<open>width\<close> and \<open>height\<close>: the ball and the paddle are placed
  from the module constants.
\<close>

definition Pong_init ::
    "(int \<Rightarrow> int \<Rightarrow> 'e option) \<Rightarrow> int \<Rightarrow> int \<Rightarrow> rand_src \<Rightarrow> 'e + Pong" where
  "Pong_init window_init width height r0 =
     (case window_init width height of
        Some e \<Rightarrow> Inl e
      | None \<Rightarrow>
          (let (b, r1) = Ball_init r0
           in Inr \<lparr>ball = b, paddle = Paddle_init, score = 0,
                   holding_left = False, holding_right = False, rng = r1\<rparr>))"

definition check_hit :: "Pong \<Rightarrow> Pong" where
  "check_hit g =
     (let too_close_x = of_int PADDLE_WIDTH / 2 + of_int BALL_RADIUS;
          too_close_y = of_int PADDLE_HEIGHT / 2 + of_int BALL_RADIUS
      in if \<bar>x (Ball.center (ball g)) - x (Paddle.center (paddle g))\<bar> < too_close_x \<and>
            \<bar>y (Ball.center (ball g)) - y (Paddle.center (paddle g))\<bar> < too_close_y \<and>
            dx (velocity (ball g)) > 0
         then g\<lparr>ball := bounce_horizontal (ball g), score := score g + SCORE_HIT\<rparr>
         else g)"

definition check_miss :: "Pong \<Rightarrow> Pong" where
  "check_miss g =
     (if x (Ball.center (ball g)) > of_int SCREEN_WIDTH
      then (let (b, r1) = restart (ball g) (rng g)
            in g\<lparr>score := score g - SCORE_MISS, ball := b, rng := r1\<rparr>)
      else g)"

definition check_bounce :: "Pong \<Rightarrow> Pong" where
  "check_bounce g =
     (let g1 = (if x (Ball.center (ball g)) < of_int BALL_RADIUS \<and> dx (velocity (ball g)) < 0
                then g\<lparr>ball := bounce_horizontal (ball g)\<rparr> else g);
          g2 = (if y (Ball.center (ball g1)) < of_int BALL_RADIUS \<and> dy (velocity (ball g1)) < 0
                then g1\<lparr>ball := bounce_vertical (ball g1)\<rparr> else g1)
      in if y (Ball.center (ball g2)) > of_int SCREEN_HEIGHT - of_int BALL_RADIUS \<and>
            dy (velocity (ball g2)) > 0
         then g2\<lparr>ball := bounce_vertical (ball g2)\<rparr> else g2)"

definition check_keys :: "Pong \<Rightarrow> Pong" where
  "check_keys g =
     (let g1 = (if holding_left g then g\<lparr>paddle := move_down (paddle g)\<rparr> else g)
      in if holding_right g1 then g1\<lparr>paddle := move_up (paddle g1)\<rparr> else g1)"

text \<open>\<^verbatim>\<open>Pong.update(delta_time)\<close>: the five calls of the source, in its order.\<close>

definition update :: "real \<Rightarrow> Pong \<Rightarrow> Pong" where
  "update delta_time g =
     (let g1 = g\<lparr>ball := advance (ball g)\<rparr>;
          g2 = check_keys g1;
          g3 = check_miss g2;
          g4 = check_hit g3
      in check_bounce g4)"

section \<open>Notions the properties are stated with\<close>

subsection \<open>The guards of the miss check and of the hit check\<close>

text \<open>
  The conditions of the two \<^verbatim>\<open>if\<close> statements of \<^verbatim>\<open>check_miss\<close> and \<^verbatim>\<open>check_hit\<close>,
  as predicates on the state they are evaluated in.
\<close>

definition miss_guard :: "Pong \<Rightarrow> bool" where
  "miss_guard g = (x (Ball.center (ball g)) > of_int SCREEN_WIDTH)"

definition hit_guard :: "Pong \<Rightarrow> bool" where
  "hit_guard g =
     (\<bar>x (Ball.center (ball g)) - x (Paddle.center (paddle g))\<bar>
         < of_int PADDLE_WIDTH / 2 + of_int BALL_RADIUS \<and>
      \<bar>y (Ball.center (ball g)) - y (Paddle.center (paddle g))\<bar>
         < of_int PADDLE_HEIGHT / 2 + of_int BALL_RADIUS \<and>
      dx (velocity (ball g)) > 0)"

subsection \<open>Sequences of paddle calls\<close>

datatype paddle_call = MoveUp | MoveDown

fun paddle_calls :: "paddle_call list \<Rightarrow> Paddle \<Rightarrow> Paddle" where
  "paddle_calls [] p = p"
| "paddle_calls (MoveUp # cs) p = paddle_calls cs (move_up p)"
| "paddle_calls (MoveDown # cs) p = paddle_calls cs (move_down p)"

text \<open>
  The number of \<^verbatim>\<open>move_up\<close> calls that still move a paddle: the least \<open>k\<close> with
  \<open>y + k * MOVE_AMOUNT \<ge> SCREEN_HEIGHT - PADDLE_HEIGHT / 2\<close>.
\<close>

definition calls_to_upper_stop :: "Paddle \<Rightarrow> nat" where
  "calls_to_upper_stop p =
     nat \<lceil>(of_int SCREEN_HEIGHT - of_int PADDLE_HEIGHT / 2 - y (Paddle.center p))
           / of_int MOVE_AMOUNT\<rceil>"

subsection \<open>The frame procedure in the words of the specification\<close>

text \<open>
  Section 4.3 of the specification describes one frame as five steps in a fixed order. Each
  step is written here from the specification's sentences, on the fields directly and
  without the methods of the source, so that it can be compared with \<open>update\<close>. The
  specification's names stand for the module constants: arena width and height for
  \<open>SCREEN_WIDTH\<close> and \<open>SCREEN_HEIGHT\<close>, radius for \<open>BALL_RADIUS\<close>, move unit for
  \<open>MOVE_AMOUNT\<close>, hit reward and miss penalty for \<open>SCORE_HIT\<close> and \<open>SCORE_MISS\<close>; the
  decrease-y flag is \<open>holding_left\<close>, the increase-y flag \<open>holding_right\<close>.
  \<open>bounded_int\<close> is the single method of the injected random source: an integer of the
  closed range, chosen by the raw number.
\<close>

definition bounded_int :: "int \<Rightarrow> int \<Rightarrow> nat \<Rightarrow> int" where
  "bounded_int lo hi raw = lo + int (raw mod nat (hi - lo + 1))"

text \<open>Step 1: \<^verbatim>\<open>center.x += velocity.dx; center.y += velocity.dy\<close>.\<close>

definition spec_advance :: "Pong \<Rightarrow> Pong" where
  "spec_advance g =
     g\<lparr>ball := (ball g)\<lparr>Ball.center :=
        \<lparr>x = x (Ball.center (ball g)) + dx (velocity (ball g)),
         y = y (Ball.center (ball g)) + dy (velocity (ball g))\<rparr>\<rparr>\<rparr>"

text \<open>
  Step 2: the held input, down first and then up, each with its own clamp: down steps only
  from above \<open>paddle_height / 2\<close>, up only from below \<open>arena_height - paddle_height / 2\<close>.
\<close>

definition spec_held_input :: "Pong \<Rightarrow> Pong" where
  "spec_held_input g =
     (let y0 = y (Paddle.center (paddle g));
          y1 = (if holding_left g \<and> y0 > of_int PADDLE_HEIGHT / 2
                then y0 - of_int MOVE_AMOUNT else y0);
          y2 = (if holding_right g \<and> y1 < of_int SCREEN_HEIGHT - of_int PADDLE_HEIGHT / 2
                then y1 + of_int MOVE_AMOUNT else y1)
      in g\<lparr>paddle := \<lparr>Paddle.center = \<lparr>x = x (Paddle.center (paddle g)), y = y2\<rparr>\<rparr>\<rparr>)"

text \<open>
  Step 3: beyond the arena's width the score drops by the miss penalty and the ball
  restarts: x is 0, and y, dx and dy are drawn again, in this order, from the ranges of the
  construction.
\<close>

definition spec_miss_check :: "Pong \<Rightarrow> Pong" where
  "spec_miss_check g =
     (if x (Ball.center (ball g)) > of_int SCREEN_WIDTH
      then g\<lparr>score := score g - SCORE_MISS,
             ball := \<lparr>Ball.center =
                        \<lparr>x = 0,
                         y = of_int (bounded_int BALL_RADIUS (SCREEN_HEIGHT - BALL_RADIUS)
                                       (rng g 0))\<rparr>,
                      velocity =
                        \<lparr>dx = of_int (bounded_int MOVE_AMOUNT (2 * MOVE_AMOUNT) (rng g 1)),
                         dy = of_int (bounded_int (MOVE_AMOUNT - 2) (MOVE_AMOUNT - 1)
                                        (rng g 2))\<rparr>\<rparr>,
             rng := (\<lambda>n. rng g (n + 3))\<rparr>
      else g)"

text \<open>
  Step 4: within both tolerances of the paddle's centre and moving right, the horizontal
  velocity is negated and the score grows by the hit reward.
\<close>

definition spec_hit_check :: "Pong \<Rightarrow> Pong" where
  "spec_hit_check g =
     (if \<bar>x (Ball.center (ball g)) - x (Paddle.center (paddle g))\<bar>
            < of_int PADDLE_WIDTH / 2 + of_int BALL_RADIUS \<and>
         \<bar>y (Ball.center (ball g)) - y (Paddle.center (paddle g))\<bar>
            < of_int PADDLE_HEIGHT / 2 + of_int BALL_RADIUS \<and>
         dx (velocity (ball g)) > 0
      then g\<lparr>ball := (ball g)\<lparr>velocity := (velocity (ball g))\<lparr>dx := - dx (velocity (ball g))\<rparr>\<rparr>,
             score := score g + SCORE_HIT\<rparr>
      else g)"

text \<open>
  Step 5: three independent conditions on the incoming ball, any subset of which may fire:
  the left wall negates dx, the bottom and the top negate dy.
\<close>

definition spec_boundary_check :: "Pong \<Rightarrow> Pong" where
  "spec_boundary_check g =
     (let c = Ball.center (ball g); v = velocity (ball g);
          left = (x c < of_int BALL_RADIUS \<and> dx v < 0);
          bottom = (y c < of_int BALL_RADIUS \<and> dy v < 0);
          top = (y c > of_int SCREEN_HEIGHT - of_int BALL_RADIUS \<and> dy v > 0)
      in g\<lparr>ball := \<lparr>Ball.center = c,
                     velocity = \<lparr>dx = (if left then - dx v else dx v),
                                 dy = (if bottom \<or> top then - dy v else dy v)\<rparr>\<rparr>\<rparr>)"

definition spec_update_frame :: "Pong \<Rightarrow> Pong" where
  "spec_update_frame g =
     spec_boundary_check (spec_hit_check (spec_miss_check (spec_held_input (spec_advance g))))"

section \<open>Basic facts about the methods\<close>

lemmas constants =
  SCREEN_WIDTH_def SCREEN_HEIGHT_def BALL_RADIUS_def PADDLE_WIDTH_def PADDLE_HEIGHT_def
  MOVE_AMOUNT_def SCORE_HIT_def SCORE_MISS_def

lemma randint_range:
  "a \<le> b \<Longrightarrow> a \<le> fst (randint a b r) \<and> fst (randint a b r) \<le> b"
proof -
  assume ab: "a \<le> b"
  then have pos: "0 < nat (b - a + 1)" by simp
  have "r 0 mod nat (b - a + 1) < nat (b - a + 1)" using pos by (rule mod_less_divisor)
  then have "int (r 0 mod nat (b - a + 1)) < b - a + 1" using ab by linarith
  then show ?thesis by (simp add: randint_def)
qed

lemma randint_bounded_int: "randint a b r = (bounded_int a b (r 0), \<lambda>n. r (Suc n))"
  by (simp add: randint_def bounded_int_def)

lemma Ball_init_center_y:
  "of_int BALL_RADIUS \<le> y (Ball.center (fst (Ball_init r))) \<and>
   y (Ball.center (fst (Ball_init r))) \<le> of_int SCREEN_HEIGHT - of_int BALL_RADIUS"
proof -
  have "y (Ball.center (fst (Ball_init r)))
      = of_int (fst (randint BALL_RADIUS (SCREEN_HEIGHT - BALL_RADIUS) r))"
    by (simp add: Ball_init_def Let_def case_prod_beta)
  moreover have "BALL_RADIUS \<le> SCREEN_HEIGHT - BALL_RADIUS" by (simp add: constants)
  ultimately show ?thesis
    using randint_range [of BALL_RADIUS "SCREEN_HEIGHT - BALL_RADIUS" r]
    by (metis of_int_diff of_int_le_iff)
qed

lemma bounce_horizontal_center: "Ball.center (bounce_horizontal b) = Ball.center b"
  by (simp add: bounce_horizontal_def)

lemma bounce_vertical_center: "Ball.center (bounce_vertical b) = Ball.center b"
  by (simp add: bounce_vertical_def)

lemma restart_center_x: "x (Ball.center (fst (restart b r))) = 0"
  by (simp add: restart_def Let_def case_prod_beta)

lemma check_keys_frame:
  "ball (check_keys g) = ball g \<and> score (check_keys g) = score g \<and>
   rng (check_keys g) = rng g \<and>
   x (Paddle.center (paddle (check_keys g))) = x (Paddle.center (paddle g))"
  by (simp add: check_keys_def move_up_def move_down_def Let_def)

lemma check_miss_fires:
  "miss_guard g \<Longrightarrow>
     check_miss g = g\<lparr>score := score g - SCORE_MISS, ball := fst (restart (ball g) (rng g)),
                      rng := snd (restart (ball g) (rng g))\<rparr>"
  by (simp add: check_miss_def miss_guard_def case_prod_beta)

lemma check_miss_idle: "\<not> miss_guard g \<Longrightarrow> check_miss g = g"
  by (simp add: check_miss_def miss_guard_def)

lemma check_hit_cases:
  "check_hit g =
     (if hit_guard g then g\<lparr>ball := bounce_horizontal (ball g), score := score g + SCORE_HIT\<rparr>
      else g)"
  by (simp add: check_hit_def hit_guard_def Let_def)

lemma check_hit_frame:
  "Ball.center (ball (check_hit g)) = Ball.center (ball g) \<and> paddle (check_hit g) = paddle g"
  by (simp add: check_hit_cases bounce_horizontal_center)

lemma check_bounce_frame:
  "Ball.center (ball (check_bounce g)) = Ball.center (ball g) \<and>
   score (check_bounce g) = score g \<and> paddle (check_bounce g) = paddle g"
  by (simp add: check_bounce_def Let_def bounce_horizontal_center bounce_vertical_center)

text \<open>
  The paddle's x is set once, by \<^verbatim>\<open>Paddle.__init__\<close>, and no frame changes it: it is
  \<open>SCREEN_WIDTH - PADDLE_WIDTH\<close> in every state of a running game.
\<close>

lemma Pong_init_paddle_x:
  "Pong_init window_init width height r = Inr g \<Longrightarrow>
   x (Paddle.center (paddle g)) = of_int (SCREEN_WIDTH - PADDLE_WIDTH)"
  by (auto simp add: Pong_init_def Paddle_init_def case_prod_beta split: option.splits)

lemma update_paddle_x:
  "x (Paddle.center (paddle (update t g))) = x (Paddle.center (paddle g))"
proof -
  have "paddle (check_miss h) = paddle h" for h
    by (simp add: check_miss_def case_prod_beta)
  then show ?thesis
    using check_keys_frame [of "g\<lparr>ball := advance (ball g)\<rparr>"]
    by (simp add: update_def Let_def check_bounce_frame check_hit_frame)
qed

text \<open>After a miss the ball is at x = 0, 390 away from the paddle: no hit in that frame.\<close>

lemma no_hit_after_miss:
  assumes px: "x (Paddle.center (paddle g)) = of_int (SCREEN_WIDTH - PADDLE_WIDTH)"
    and m: "miss_guard g"
  shows "\<not> hit_guard (check_miss g)"
  using px by (simp add: check_miss_fires [OF m] hit_guard_def restart_center_x constants)


section \<open>The hit check\<close>

text \<open>
  C1. The hit check bounces and scores exactly when the overlap-and-direction condition
  holds: if the ball's centre is within \<open>PADDLE_WIDTH / 2 + BALL_RADIUS\<close> of the paddle's
  centre in x and within \<open>PADDLE_HEIGHT / 2 + BALL_RADIUS\<close> in y, and \<open>dx > 0\<close>, then
  \<open>check_hit\<close> negates \<open>dx\<close> and adds \<open>SCORE_HIT\<close> to the score, leaving everything else as
  it was; if the condition fails, \<open>check_hit\<close> changes nothing; in particular, in every
  state with \<open>dx \<le> 0\<close>, overlapping or not, neither the score nor the velocity changes.
\<close>

theorem check_hit_direction_gated:
  "(\<bar>x (Ball.center (ball g)) - x (Paddle.center (paddle g))\<bar>
        < of_int PADDLE_WIDTH / 2 + of_int BALL_RADIUS \<and>
    \<bar>y (Ball.center (ball g)) - y (Paddle.center (paddle g))\<bar>
        < of_int PADDLE_HEIGHT / 2 + of_int BALL_RADIUS \<and>
    dx (velocity (ball g)) > 0
    \<longrightarrow> dx (velocity (ball (check_hit g))) = - dx (velocity (ball g)) \<and>
        score (check_hit g) = score g + SCORE_HIT \<and>
        dy (velocity (ball (check_hit g))) = dy (velocity (ball g)) \<and>
        Ball.center (ball (check_hit g)) = Ball.center (ball g) \<and>
        paddle (check_hit g) = paddle g \<and>
        holding_left (check_hit g) = holding_left g \<and>
        holding_right (check_hit g) = holding_right g \<and>
        rng (check_hit g) = rng g) \<and>
   (dx (velocity (ball h)) \<le> 0 \<longrightarrow> check_hit h = h) \<and>
   (\<not> (\<bar>x (Ball.center (ball k)) - x (Paddle.center (paddle k))\<bar>
          < of_int PADDLE_WIDTH / 2 + of_int BALL_RADIUS \<and>
        \<bar>y (Ball.center (ball k)) - y (Paddle.center (paddle k))\<bar>
          < of_int PADDLE_HEIGHT / 2 + of_int BALL_RADIUS \<and>
        dx (velocity (ball k)) > 0)
    \<longrightarrow> check_hit k = k)"
  by (simp add: check_hit_def bounce_horizontal_def Let_def)

text \<open>
  The theorem at three states with the paddle at (390, 150): a ball at (380, 150) moving
  right by 5, the same ball moving left by 5 (it overlaps the paddle and is left alone),
  and a ball at (100, 150) moving right.
\<close>

theorem check_hit_direction_gated_witness:
  "dx (velocity (ball (check_hit
      \<lparr>ball = \<lparr>Ball.center = \<lparr>x = 380, y = 150\<rparr>, velocity = \<lparr>dx = 5, dy = 0\<rparr>\<rparr>,
       paddle = \<lparr>Paddle.center = \<lparr>x = 390, y = 150\<rparr>\<rparr>, score = 0,
       holding_left = False, holding_right = False, rng = (\<lambda>n. 0)\<rparr>))) = - 5 \<and>
   score (check_hit
      \<lparr>ball = \<lparr>Ball.center = \<lparr>x = 380, y = 150\<rparr>, velocity = \<lparr>dx = 5, dy = 0\<rparr>\<rparr>,
       paddle = \<lparr>Paddle.center = \<lparr>x = 390, y = 150\<rparr>\<rparr>, score = 0,
       holding_left = False, holding_right = False, rng = (\<lambda>n. 0)\<rparr>) = 1 \<and>
   \<bar>x (Ball.center (ball
      \<lparr>ball = \<lparr>Ball.center = \<lparr>x = 380, y = 150\<rparr>, velocity = \<lparr>dx = - 5, dy = 0\<rparr>\<rparr>,
       paddle = \<lparr>Paddle.center = \<lparr>x = 390, y = 150\<rparr>\<rparr>, score = 0,
       holding_left = False, holding_right = False, rng = (\<lambda>n. 0)\<rparr>)) - 390\<bar> < 15 \<and>
   dx (velocity (ball (check_hit
      \<lparr>ball = \<lparr>Ball.center = \<lparr>x = 380, y = 150\<rparr>, velocity = \<lparr>dx = - 5, dy = 0\<rparr>\<rparr>,
       paddle = \<lparr>Paddle.center = \<lparr>x = 390, y = 150\<rparr>\<rparr>, score = 0,
       holding_left = False, holding_right = False, rng = (\<lambda>n. 0)\<rparr>))) = - 5 \<and>
   score (check_hit
      \<lparr>ball = \<lparr>Ball.center = \<lparr>x = 380, y = 150\<rparr>, velocity = \<lparr>dx = - 5, dy = 0\<rparr>\<rparr>,
       paddle = \<lparr>Paddle.center = \<lparr>x = 390, y = 150\<rparr>\<rparr>, score = 0,
       holding_left = False, holding_right = False, rng = (\<lambda>n. 0)\<rparr>) = 0 \<and>
   dx (velocity (ball (check_hit
      \<lparr>ball = \<lparr>Ball.center = \<lparr>x = 100, y = 150\<rparr>, velocity = \<lparr>dx = 5, dy = 0\<rparr>\<rparr>,
       paddle = \<lparr>Paddle.center = \<lparr>x = 390, y = 150\<rparr>\<rparr>, score = 0,
       holding_left = False, holding_right = False, rng = (\<lambda>n. 0)\<rparr>))) = 5 \<and>
   score (check_hit
      \<lparr>ball = \<lparr>Ball.center = \<lparr>x = 100, y = 150\<rparr>, velocity = \<lparr>dx = 5, dy = 0\<rparr>\<rparr>,
       paddle = \<lparr>Paddle.center = \<lparr>x = 390, y = 150\<rparr>\<rparr>, score = 0,
       holding_left = False, holding_right = False, rng = (\<lambda>n. 0)\<rparr>) = 0"
  using check_hit_direction_gated
    [of "\<lparr>ball = \<lparr>Ball.center = \<lparr>x = 380, y = 150\<rparr>, velocity = \<lparr>dx = 5, dy = 0\<rparr>\<rparr>,
          paddle = \<lparr>Paddle.center = \<lparr>x = 390, y = 150\<rparr>\<rparr>, score = 0,
          holding_left = False, holding_right = False, rng = (\<lambda>n. 0)\<rparr>"
        "\<lparr>ball = \<lparr>Ball.center = \<lparr>x = 380, y = 150\<rparr>, velocity = \<lparr>dx = - 5, dy = 0\<rparr>\<rparr>,
          paddle = \<lparr>Paddle.center = \<lparr>x = 390, y = 150\<rparr>\<rparr>, score = 0,
          holding_left = False, holding_right = False, rng = (\<lambda>n. 0)\<rparr>"
        "\<lparr>ball = \<lparr>Ball.center = \<lparr>x = 100, y = 150\<rparr>, velocity = \<lparr>dx = 5, dy = 0\<rparr>\<rparr>,
          paddle = \<lparr>Paddle.center = \<lparr>x = 390, y = 150\<rparr>\<rparr>, score = 0,
          holding_left = False, holding_right = False, rng = (\<lambda>n. 0)\<rparr>"]
  by (simp add: constants)

section \<open>A frame that starts beyond the right edge\<close>

text \<open>
  C2 (as amended). In every state in which the ball's centre x is \<open>SCREEN_WIDTH + 1\<close> (401)
  and the ball is still beyond \<open>SCREEN_WIDTH\<close> after it has advanced (that is, \<open>dx > - 1\<close>),
  with the paddle at its constructed x of \<open>SCREEN_WIDTH - PADDLE_WIDTH\<close>, whatever the
  vertical velocity, the paddle's y, the key flags and the random numbers are, one call of
  \<open>update\<close> lowers the score by exactly \<open>SCORE_MISS\<close> and leaves the ball's centre x at 0.
  The claim as written asks this of every velocity; \<open>update\<close> advances the ball before it
  looks for a miss, so a ball at 401 that moves left by one or more is back inside.
\<close>

theorem miss_from_beyond_right_edge:
  assumes bx: "x (Ball.center (ball g)) = of_int SCREEN_WIDTH + 1"
    and vx: "x (Ball.center (ball g)) + dx (velocity (ball g)) > of_int SCREEN_WIDTH"
    and px: "x (Paddle.center (paddle g)) = of_int (SCREEN_WIDTH - PADDLE_WIDTH)"
  shows "score (update t g) = score g - SCORE_MISS \<and>
         x (Ball.center (ball (update t g))) = 0"
proof -
  define g2 where "g2 = check_keys (g\<lparr>ball := advance (ball g)\<rparr>)"
  have m: "miss_guard g2"
    using vx check_keys_frame [of "g\<lparr>ball := advance (ball g)\<rparr>"]
    by (simp add: g2_def miss_guard_def advance_def)
  have px2: "x (Paddle.center (paddle g2)) = of_int (SCREEN_WIDTH - PADDLE_WIDTH)"
    using px check_keys_frame [of "g\<lparr>ball := advance (ball g)\<rparr>"] by (simp add: g2_def)
  have s2: "score g2 = score g"
    using check_keys_frame [of "g\<lparr>ball := advance (ball g)\<rparr>"] by (simp add: g2_def)
  have nh: "\<not> hit_guard (check_miss g2)" by (rule no_hit_after_miss [OF px2 m])
  have u: "update t g = check_bounce (check_hit (check_miss g2))"
    by (simp add: update_def Let_def g2_def)
  have "score (update t g) = score g - SCORE_MISS"
    using nh by (simp add: u check_bounce_frame check_hit_cases check_miss_fires [OF m] s2)
  moreover have "x (Ball.center (ball (update t g))) = 0"
    by (simp add: u check_bounce_frame check_hit_frame check_miss_fires [OF m] restart_center_x)
  ultimately show ?thesis by simp
qed

text \<open>The theorem at a ball at (401, 150) moving right by 5, both keys held.\<close>

theorem miss_from_beyond_right_edge_witness:
  "(let g = \<lparr>ball = \<lparr>Ball.center = \<lparr>x = 401, y = 150\<rparr>, velocity = \<lparr>dx = 5, dy = 3\<rparr>\<rparr>,
             paddle = \<lparr>Paddle.center = \<lparr>x = 390, y = 150\<rparr>\<rparr>, score = 7,
             holding_left = True, holding_right = True, rng = (\<lambda>n. n)\<rparr>
    in x (Ball.center (ball g)) = 401 \<and>
       x (Ball.center (ball g)) + dx (velocity (ball g)) > 400 \<and>
       x (Paddle.center (paddle g)) = 390 \<and>
       score (update 0 g) = 2 \<and> x (Ball.center (ball (update 0 g))) = 0)"
  using miss_from_beyond_right_edge
    [of "\<lparr>ball = \<lparr>Ball.center = \<lparr>x = 401, y = 150\<rparr>, velocity = \<lparr>dx = 5, dy = 3\<rparr>\<rparr>,
          paddle = \<lparr>Paddle.center = \<lparr>x = 390, y = 150\<rparr>\<rparr>, score = 7,
          holding_left = True, holding_right = True, rng = (\<lambda>n. n)\<rparr>" 0]
  by (simp add: constants)

text \<open>
  The claim as written fails for a ball at (401, 150) that moves left by 5: it advances to
  396, no miss is seen, the score stays and x is not reset.
\<close>

theorem miss_regardless_of_velocity_counterexample:
  "x (Ball.center (ball
      \<lparr>ball = \<lparr>Ball.center = \<lparr>x = 401, y = 150\<rparr>, velocity = \<lparr>dx = - 5, dy = 0\<rparr>\<rparr>,
       paddle = \<lparr>Paddle.center = \<lparr>x = 390, y = 150\<rparr>\<rparr>, score = 0,
       holding_left = False, holding_right = False, rng = (\<lambda>n. 0)\<rparr>)) = of_int SCREEN_WIDTH + 1 \<and>
   score (update 0
      \<lparr>ball = \<lparr>Ball.center = \<lparr>x = 401, y = 150\<rparr>, velocity = \<lparr>dx = - 5, dy = 0\<rparr>\<rparr>,
       paddle = \<lparr>Paddle.center = \<lparr>x = 390, y = 150\<rparr>\<rparr>, score = 0,
       holding_left = False, holding_right = False, rng = (\<lambda>n. 0)\<rparr>) = 0 \<and>
   x (Ball.center (ball (update 0
      \<lparr>ball = \<lparr>Ball.center = \<lparr>x = 401, y = 150\<rparr>, velocity = \<lparr>dx = - 5, dy = 0\<rparr>\<rparr>,
       paddle = \<lparr>Paddle.center = \<lparr>x = 390, y = 150\<rparr>\<rparr>, score = 0,
       holding_left = False, holding_right = False, rng = (\<lambda>n. 0)\<rparr>))) = 396"
  by (simp add: update_def check_keys_def check_miss_def check_hit_def check_bounce_def
      advance_def Let_def constants)

section \<open>The frame as five steps\<close>

lemma advance_refines: "g\<lparr>ball := advance (ball g)\<rparr> = spec_advance g"
  by (simp add: advance_def spec_advance_def)

lemma check_keys_refines: "check_keys g = spec_held_input g"
  by (simp add: check_keys_def spec_held_input_def move_up_def move_down_def Let_def)

lemma restart_draws:
  "restart b r =
     (\<lparr>Ball.center =
         \<lparr>x = 0, y = of_int (bounded_int BALL_RADIUS (SCREEN_HEIGHT - BALL_RADIUS) (r 0))\<rparr>,
       velocity = \<lparr>dx = of_int (bounded_int MOVE_AMOUNT (2 * MOVE_AMOUNT) (r 1)),
                   dy = of_int (bounded_int (MOVE_AMOUNT - 2) (MOVE_AMOUNT - 1) (r 2))\<rparr>\<rparr>,
      \<lambda>n. r (n + 3))"
  by (simp add: restart_def randint_bounded_int Let_def numeral_2_eq_2 numeral_3_eq_3)

lemma check_miss_refines: "check_miss g = spec_miss_check g"
  by (simp add: check_miss_def spec_miss_check_def restart_draws)

lemma check_hit_refines: "check_hit g = spec_hit_check g"
  by (simp add: check_hit_def spec_hit_check_def bounce_horizontal_def Let_def)

lemma check_bounce_refines: "check_bounce g = spec_boundary_check g"
  by (simp add: check_bounce_def spec_boundary_check_def bounce_horizontal_def
      bounce_vertical_def Let_def constants)

text \<open>
  C3. For every starting state and every elapsed time, one call of \<open>update\<close> is the
  composition, in this order, of the ball's advance, the held-input paddle movement (down
  for the decrease-y flag, then up for the increase-y flag, each with its own clamp), the
  miss check, the hit check and the boundary-bounce check, as the specification words them;
  the two states are equal in every field, so nothing else is changed in a frame.
\<close>

theorem update_is_five_steps_in_order: "update t g = spec_update_frame g"
  by (simp add: update_def spec_update_frame_def Let_def advance_refines check_keys_refines
      check_miss_refines check_hit_refines check_bounce_refines)

section \<open>Repeated \<open>move_up\<close>\<close>

text \<open>
  \<^verbatim>\<open>move_up\<close> tests the position before the step and does not clamp after it, so \<open>n\<close>
  calls add \<open>MOVE_AMOUNT\<close> for each of the first \<open>calls_to_upper_stop p\<close> calls and nothing
  afterwards.
\<close>

lemma move_up_closed_form:
  "(move_up ^^ n) p =
     p\<lparr>Paddle.center := (Paddle.center p)
        \<lparr>y := y (Paddle.center p) + 4 * real (min n (calls_to_upper_stop p))\<rparr>\<rparr>"
proof (induction n)
  case 0
  then show ?case by simp
next
  case (Suc n)
  let ?z = "(275 - y (Paddle.center p)) / 4"
  have k: "calls_to_upper_stop p = nat \<lceil>?z\<rceil>"
    by (simp add: calls_to_upper_stop_def constants)
  show ?case
  proof (cases "n < calls_to_upper_stop p")
    case True
    then have "int n < \<lceil>?z\<rceil>" using k by linarith
    then have "real n < ?z" by (simp add: less_ceiling_iff)
    then have "y (Paddle.center p) + 4 * real n < 275" by simp
    moreover have "min n (calls_to_upper_stop p) = n"
      and "min (Suc n) (calls_to_upper_stop p) = Suc n" using True by simp_all
    ultimately show ?thesis using Suc.IH
      by (simp add: move_up_def constants algebra_simps)
  next
    case False
    then have le: "calls_to_upper_stop p \<le> n" by simp
    have "?z \<le> real_of_int \<lceil>?z\<rceil>" by (rule le_of_int_ceiling)
    also have "\<dots> \<le> real (nat \<lceil>?z\<rceil>)" by linarith
    finally have "?z \<le> real (calls_to_upper_stop p)" using k by simp
    then have "\<not> y (Paddle.center p) + 4 * real (calls_to_upper_stop p) < 275" by simp
    moreover have "min n (calls_to_upper_stop p) = calls_to_upper_stop p"
      and "min (Suc n) (calls_to_upper_stop p) = calls_to_upper_stop p" using le by simp_all
    ultimately show ?thesis using Suc.IH
      by (simp add: move_up_def constants)
  qed
qed

lemma upper_stop_reached:
  "275 \<le> y (Paddle.center p) + 4 * real (calls_to_upper_stop p)"
proof -
  let ?z = "(275 - y (Paddle.center p)) / 4"
  have k: "calls_to_upper_stop p = nat \<lceil>?z\<rceil>"
    by (simp add: calls_to_upper_stop_def constants)
  have "?z \<le> real_of_int \<lceil>?z\<rceil>" by (rule le_of_int_ceiling)
  also have "\<dots> \<le> real (nat \<lceil>?z\<rceil>)" by linarith
  finally have "?z \<le> real (calls_to_upper_stop p)" using k by simp
  then show ?thesis by simp
qed

lemma upper_stop_overshoot:
  assumes "y (Paddle.center p) < 275"
  shows "y (Paddle.center p) + 4 * real (calls_to_upper_stop p) < 279"
proof -
  let ?z = "(275 - y (Paddle.center p)) / 4"
  have k: "calls_to_upper_stop p = nat \<lceil>?z\<rceil>"
    by (simp add: calls_to_upper_stop_def constants)
  have "0 < ?z" using assms by simp
  then have "0 < \<lceil>?z\<rceil>" by (simp add: ceiling_less_iff)
  then have "real (nat \<lceil>?z\<rceil>) = real_of_int \<lceil>?z\<rceil>" by simp
  moreover have "real_of_int \<lceil>?z\<rceil> < ?z + 1" by linarith
  ultimately have "real (calls_to_upper_stop p) < ?z + 1" using k by simp
  then show ?thesis by (simp add: field_simps)
qed

text \<open>
  C4 (as amended). For every starting paddle with centre y0, let \<open>k\<close> be
  \<open>calls_to_upper_stop p\<close>, the ceiling of \<open>(275 - y0) / 4\<close>, and 0 when y0 is already at or
  above \<open>SCREEN_HEIGHT - PADDLE_HEIGHT / 2 = 275\<close>. After \<open>m\<close> calls of \<open>move_up\<close> the
  centre's y is \<open>y0 + MOVE_AMOUNT * min m k\<close> and nothing else has changed: each of the first
  \<open>k\<close> calls adds a full step, and from \<open>k\<close> calls on the paddle is stable at \<open>y0 + 4 * k\<close>,
  every longer run ends in the same paddle and a further call is a no-op. The stable y is
  at least 275, and when the paddle started below 275 it is less than
  \<open>275 + MOVE_AMOUNT = 279\<close>; no call in the sequence takes y above the stable value. The
  stable y is 275 itself exactly when 275 is a whole number of steps above y0: from the
  initial 150 it is 278.
\<close>

theorem move_up_stabilises:
  "(move_up ^^ m) p =
     p\<lparr>Paddle.center := (Paddle.center p)
        \<lparr>y := y (Paddle.center p)
              + of_int MOVE_AMOUNT * real (min m (calls_to_upper_stop p))\<rparr>\<rparr> \<and>
   y (Paddle.center ((move_up ^^ calls_to_upper_stop p) p))
     = y (Paddle.center p) + of_int MOVE_AMOUNT * real (calls_to_upper_stop p) \<and>
   (y (Paddle.center ((move_up ^^ calls_to_upper_stop p) p))
      = of_int SCREEN_HEIGHT - of_int PADDLE_HEIGHT / 2
    \<longleftrightarrow> (\<exists>j :: nat. y (Paddle.center p) + of_int MOVE_AMOUNT * real j
                       = of_int SCREEN_HEIGHT - of_int PADDLE_HEIGHT / 2)) \<and>
   (calls_to_upper_stop p \<le> n \<longrightarrow> (move_up ^^ n) p = (move_up ^^ calls_to_upper_stop p) p) \<and>
   move_up ((move_up ^^ calls_to_upper_stop p) p) = (move_up ^^ calls_to_upper_stop p) p \<and>
   of_int SCREEN_HEIGHT - of_int PADDLE_HEIGHT / 2
     \<le> y (Paddle.center ((move_up ^^ calls_to_upper_stop p) p)) \<and>
   (y (Paddle.center p) < of_int SCREEN_HEIGHT - of_int PADDLE_HEIGHT / 2 \<longrightarrow>
      y (Paddle.center ((move_up ^^ calls_to_upper_stop p) p))
        < of_int SCREEN_HEIGHT - of_int PADDLE_HEIGHT / 2 + of_int MOVE_AMOUNT) \<and>
   (of_int SCREEN_HEIGHT - of_int PADDLE_HEIGHT / 2 \<le> y (Paddle.center p) \<longrightarrow>
      calls_to_upper_stop p = 0) \<and>
   y (Paddle.center ((move_up ^^ m) p))
     \<le> y (Paddle.center ((move_up ^^ calls_to_upper_stop p) p))"
proof -
  have cf: "(move_up ^^ m) p =
      p\<lparr>Paddle.center := (Paddle.center p)
         \<lparr>y := y (Paddle.center p)
               + of_int MOVE_AMOUNT * real (min m (calls_to_upper_stop p))\<rparr>\<rparr>"
    by (simp add: move_up_closed_form constants)
  have st: "y (Paddle.center ((move_up ^^ calls_to_upper_stop p) p))
      = y (Paddle.center p) + of_int MOVE_AMOUNT * real (calls_to_upper_stop p)"
    by (simp add: move_up_closed_form constants)
  have ex: "y (Paddle.center ((move_up ^^ calls_to_upper_stop p) p))
        = of_int SCREEN_HEIGHT - of_int PADDLE_HEIGHT / 2
      \<longleftrightarrow> (\<exists>j :: nat. y (Paddle.center p) + of_int MOVE_AMOUNT * real j
                         = of_int SCREEN_HEIGHT - of_int PADDLE_HEIGHT / 2)"
  proof
    assume "y (Paddle.center ((move_up ^^ calls_to_upper_stop p) p))
        = of_int SCREEN_HEIGHT - of_int PADDLE_HEIGHT / 2"
    then have "y (Paddle.center p) + of_int MOVE_AMOUNT * real (calls_to_upper_stop p)
        = of_int SCREEN_HEIGHT - of_int PADDLE_HEIGHT / 2"
      using st by simp
    then show "\<exists>j :: nat. y (Paddle.center p) + of_int MOVE_AMOUNT * real j
        = of_int SCREEN_HEIGHT - of_int PADDLE_HEIGHT / 2" ..
  next
    assume "\<exists>j :: nat. y (Paddle.center p) + of_int MOVE_AMOUNT * real j
        = of_int SCREEN_HEIGHT - of_int PADDLE_HEIGHT / 2"
    then obtain j :: nat where j: "y (Paddle.center p) + 4 * real j = 275"
      by (auto simp add: constants)
    then have "(275 - y (Paddle.center p)) / 4 = real j" by simp
    then have "calls_to_upper_stop p = j"
      by (simp add: calls_to_upper_stop_def constants)
    then show "y (Paddle.center ((move_up ^^ calls_to_upper_stop p) p))
        = of_int SCREEN_HEIGHT - of_int PADDLE_HEIGHT / 2"
      using j by (simp add: move_up_closed_form constants)
  qed
  have a: "calls_to_upper_stop p \<le> n \<longrightarrow>
      (move_up ^^ n) p = (move_up ^^ calls_to_upper_stop p) p"
    by (simp add: move_up_closed_form min_absorb2)
  have "move_up ((move_up ^^ calls_to_upper_stop p) p) = (move_up ^^ Suc (calls_to_upper_stop p)) p"
    by simp
  also have "\<dots> = (move_up ^^ calls_to_upper_stop p) p"
    unfolding move_up_closed_form [of "Suc (calls_to_upper_stop p)"]
      move_up_closed_form [of "calls_to_upper_stop p"] by simp
  finally have b: "move_up ((move_up ^^ calls_to_upper_stop p) p)
      = (move_up ^^ calls_to_upper_stop p) p" .
  have c: "of_int SCREEN_HEIGHT - of_int PADDLE_HEIGHT / 2
      \<le> y (Paddle.center ((move_up ^^ calls_to_upper_stop p) p))"
    using upper_stop_reached [of p] by (simp add: move_up_closed_form constants)
  have d: "y (Paddle.center p) < of_int SCREEN_HEIGHT - of_int PADDLE_HEIGHT / 2 \<longrightarrow>
      y (Paddle.center ((move_up ^^ calls_to_upper_stop p) p))
        < of_int SCREEN_HEIGHT - of_int PADDLE_HEIGHT / 2 + of_int MOVE_AMOUNT"
    using upper_stop_overshoot [of p] by (simp add: move_up_closed_form constants)
  have e: "of_int SCREEN_HEIGHT - of_int PADDLE_HEIGHT / 2 \<le> y (Paddle.center p) \<longrightarrow>
      calls_to_upper_stop p = 0"
    by (simp add: calls_to_upper_stop_def constants)
  have f: "y (Paddle.center ((move_up ^^ m) p))
      \<le> y (Paddle.center ((move_up ^^ calls_to_upper_stop p) p))"
    by (simp add: move_up_closed_form)
  from cf st ex a b c d e f show ?thesis by blast
qed

text \<open>
  The theorem at the initial paddle (y = 150: 178 after 7 calls, stable after 32 calls at
  278, which is not 275), at a paddle that starts at 271 (stable after one call at exactly
  275) and at a paddle that starts at 275 (stable at once).
\<close>

theorem move_up_stabilises_witness:
  "calls_to_upper_stop Paddle_init = 32 \<and>
   (move_up ^^ 40) Paddle_init = (move_up ^^ 32) Paddle_init \<and>
   y (Paddle.center Paddle_init) < 275 \<and>
   y (Paddle.center ((move_up ^^ 32) Paddle_init)) < 279 \<and>
   y (Paddle.center ((move_up ^^ 7) Paddle_init))
     \<le> y (Paddle.center ((move_up ^^ 32) Paddle_init)) \<and>
   calls_to_upper_stop \<lparr>Paddle.center = \<lparr>x = 390, y = 275\<rparr>\<rparr> = 0 \<and>
   (move_up ^^ 7) Paddle_init = \<lparr>Paddle.center = \<lparr>x = 390, y = 178\<rparr>\<rparr> \<and>
   y (Paddle.center ((move_up ^^ 32) Paddle_init)) = 278 \<and>
   calls_to_upper_stop \<lparr>Paddle.center = \<lparr>x = 390, y = 271\<rparr>\<rparr> = 1 \<and>
   (move_up ^^ 5) \<lparr>Paddle.center = \<lparr>x = 390, y = 271\<rparr>\<rparr> = \<lparr>Paddle.center = \<lparr>x = 390, y = 275\<rparr>\<rparr>"
proof -
  have k: "calls_to_upper_stop \<lparr>Paddle.center = \<lparr>x = 390, y = 150\<rparr>\<rparr> = 32"
    by (simp add: calls_to_upper_stop_def constants)
  have k1: "calls_to_upper_stop \<lparr>Paddle.center = \<lparr>x = 390, y = 271\<rparr>\<rparr> = 1"
    by (simp add: calls_to_upper_stop_def constants)
  have p0: "Paddle_init = \<lparr>Paddle.center = \<lparr>x = 390, y = 150\<rparr>\<rparr>"
    by (simp add: Paddle_init_def constants)
  show ?thesis
    using move_up_stabilises [where p = Paddle_init and n = 40 and m = 7]
      move_up_stabilises [where p = "\<lparr>Paddle.center = \<lparr>x = 390, y = 275\<rparr>\<rparr>" and n = 0 and m = 0]
      move_up_stabilises [where p = "\<lparr>Paddle.center = \<lparr>x = 390, y = 271\<rparr>\<rparr>" and n = 5 and m = 5]
    by (simp add: p0 k k1 constants)
qed

text \<open>
  The claim as written fails at the initial paddle: 32 calls take y from 150 to 278, where
  a further call is a no-op, and 278 exceeds 275.
\<close>

theorem move_up_exceeds_clamp_counterexample:
  "move_up ((move_up ^^ 32) Paddle_init) = (move_up ^^ 32) Paddle_init \<and>
   y (Paddle.center ((move_up ^^ 32) Paddle_init)) = 278 \<and>
   y (Paddle.center ((move_up ^^ 32) Paddle_init))
     > of_int SCREEN_HEIGHT - of_int PADDLE_HEIGHT / 2"
  by (simp add: eval_nat_numeral move_up_def Paddle_init_def constants)

section \<open>Construction of the game\<close>

lemma Pong_init_accepted:
  "window_init width height = None \<Longrightarrow>
   Pong_init window_init width height r =
     Inr \<lparr>ball = fst (Ball_init r), paddle = Paddle_init, score = 0,
          holding_left = False, holding_right = False, rng = snd (Ball_init r)\<rparr>"
  by (simp add: Pong_init_def case_prod_beta)

lemma Ball_init_center_x: "x (Ball.center (fst (Ball_init r))) = of_int BALL_RADIUS"
  by (simp add: Ball_init_def Let_def case_prod_beta)

text \<open>
  C5 (as amended). \<^verbatim>\<open>Pong.__init__\<close> does not compare the width and the height with the
  ball radius or the paddle dimensions and raises no error of its own. Whenever the
  constructor of the window base class accepts the size, also a size smaller than twice the
  ball radius, the game is constructed, and its state is the one placed from the module
  constants: the ball's centre has x = \<open>BALL_RADIUS\<close> and y between \<open>BALL_RADIUS\<close> and
  \<open>SCREEN_HEIGHT - BALL_RADIUS\<close>, the paddle's centre is (390, 150), the score is 0 and
  no key is held; it is the same state for every other size the base class accepts. When
  the construction fails, the error is the one the base class raised.
\<close>

theorem Pong_init_no_size_check:
  "(window_init width height = None \<longrightarrow>
      \<not> isl (Pong_init window_init width height r) \<and>
      x (Ball.center (ball (projr (Pong_init window_init width height r))))
        = of_int BALL_RADIUS \<and>
      of_int BALL_RADIUS
        \<le> y (Ball.center (ball (projr (Pong_init window_init width height r)))) \<and>
      y (Ball.center (ball (projr (Pong_init window_init width height r))))
        \<le> of_int SCREEN_HEIGHT - of_int BALL_RADIUS \<and>
      Paddle.center (paddle (projr (Pong_init window_init width height r)))
        = \<lparr>x = 390, y = 150\<rparr> \<and>
      score (projr (Pong_init window_init width height r)) = 0 \<and>
      \<not> holding_left (projr (Pong_init window_init width height r)) \<and>
      \<not> holding_right (projr (Pong_init window_init width height r)) \<and>
      (window_init width' height' = None \<longrightarrow>
         Pong_init window_init width' height' r = Pong_init window_init width height r)) \<and>
   (Pong_init window_init width height r = Inl e \<longrightarrow> window_init width height = Some e)"
proof -
  have fails: "Pong_init window_init width height r = Inl e \<longrightarrow>
      window_init width height = Some e"
    by (simp add: Pong_init_def case_prod_beta split: option.splits)
  have ok: "\<not> isl (Pong_init window_init width height r) \<and>
      x (Ball.center (ball (projr (Pong_init window_init width height r))))
        = of_int BALL_RADIUS \<and>
      of_int BALL_RADIUS
        \<le> y (Ball.center (ball (projr (Pong_init window_init width height r)))) \<and>
      y (Ball.center (ball (projr (Pong_init window_init width height r))))
        \<le> of_int SCREEN_HEIGHT - of_int BALL_RADIUS \<and>
      Paddle.center (paddle (projr (Pong_init window_init width height r)))
        = \<lparr>x = 390, y = 150\<rparr> \<and>
      score (projr (Pong_init window_init width height r)) = 0 \<and>
      \<not> holding_left (projr (Pong_init window_init width height r)) \<and>
      \<not> holding_right (projr (Pong_init window_init width height r)) \<and>
      (window_init width' height' = None \<longrightarrow>
         Pong_init window_init width' height' r = Pong_init window_init width height r)"
    if acc: "window_init width height = None"
  proof -
    have "Paddle.center Paddle_init = \<lparr>x = 390, y = 150\<rparr>"
      by (simp add: Paddle_init_def constants)
    then show ?thesis
      using Ball_init_center_y [of r] Ball_init_center_x [of r]
      by (simp add: Pong_init_accepted acc)
  qed
  from ok fails show ?thesis by blast
qed

text \<open>
  The theorem at a base class that accepts every size with positive width and height: the
  sizes 400 by 15 and 400 by 300 are accepted and give one state; the size 400 by 0 fails
  with the base class's error.
\<close>

theorem Pong_init_no_size_check_witness:
  "\<not> isl (Pong_init (\<lambda>w h. if 0 < w \<and> 0 < h then None else Some ()) 400 15 (\<lambda>n. 0)) \<and>
   Paddle.center (paddle (projr
      (Pong_init (\<lambda>w h. if 0 < w \<and> 0 < h then None else Some ()) 400 15 (\<lambda>n. 0))))
     = \<lparr>x = 390, y = 150\<rparr> \<and>
   Pong_init (\<lambda>w h. if 0 < w \<and> 0 < h then None else Some ()) 400 300 (\<lambda>n. 0)
     = Pong_init (\<lambda>w h. if 0 < w \<and> 0 < h then None else Some ()) 400 15 (\<lambda>n. 0) \<and>
   Pong_init (\<lambda>w h. if 0 < w \<and> 0 < h then None else Some ()) 400 0 (\<lambda>n. 0) = Inl () \<and>
   (\<lambda>w h. if (0 :: int) < w \<and> (0 :: int) < h then None else Some ()) 400 0 = Some ()"
proof -
  have z: "Pong_init (\<lambda>w h. if 0 < w \<and> 0 < h then None else Some ()) 400 0 (\<lambda>n. 0) = Inl ()"
    by (simp add: Pong_init_def)
  show ?thesis
    using
      Pong_init_no_size_check
        [of "\<lambda>w h. if 0 < w \<and> 0 < h then None else Some ()" 400 15 "\<lambda>n. 0" 400 300 "()"]
      Pong_init_no_size_check
        [of "\<lambda>w h. if 0 < w \<and> 0 < h then None else Some ()" 400 0 "\<lambda>n. 0" 400 300 "()"]
    by (simp add: z)
qed

text \<open>
  The claim as written fails for an arena of 400 by 15, lower than twice the radius of 10,
  under a base class that accepts every positive size: the game is constructed, with the
  ball's centre at (10, 10), above the \<open>15 - 10\<close> that would keep the ball inside, and the
  paddle's centre at (390, 150), far above the arena.
\<close>

theorem Pong_init_accepts_small_arena_counterexample:
  "(15 :: int) < 2 * BALL_RADIUS \<and>
   \<not> isl (Pong_init (\<lambda>w h. if 0 < w \<and> 0 < h then None else Some ()) 400 15 (\<lambda>n. 0)) \<and>
   Ball.center (ball (projr
      (Pong_init (\<lambda>w h. if 0 < w \<and> 0 < h then None else Some ()) 400 15 (\<lambda>n. 0))))
     = \<lparr>x = 10, y = 10\<rparr> \<and>
   Paddle.center (paddle (projr
      (Pong_init (\<lambda>w h. if 0 < w \<and> 0 < h then None else Some ()) 400 15 (\<lambda>n. 0))))
     = \<lparr>x = 390, y = 150\<rparr> \<and>
   y (Ball.center (ball (projr
      (Pong_init (\<lambda>w h. if 0 < w \<and> 0 < h then None else Some ()) 400 15 (\<lambda>n. 0)))))
     > 15 - of_int BALL_RADIUS \<and>
   y (Paddle.center (paddle (projr
      (Pong_init (\<lambda>w h. if 0 < w \<and> 0 < h then None else Some ()) 400 15 (\<lambda>n. 0)))))
     > 15"
  by (simp add: Pong_init_def Ball_init_def Paddle_init_def randint_def Let_def constants)

section \<open>The boundary-bounce check\<close>

text \<open>
  C6. The boundary-bounce check is idempotent: for every ball position and velocity,
  running \<open>check_bounce\<close> twice in succession gives the state that running it once gives.
  Each guard asks for motion towards its wall, and the flip turns the motion away.
\<close>

theorem check_bounce_idempotent: "check_bounce (check_bounce g) = check_bounce g"
  by (simp add: check_bounce_def bounce_horizontal_def bounce_vertical_def Let_def constants)

section \<open>Construction of the ball\<close>

text \<open>
  C7. For every state of the random source, \<^verbatim>\<open>Ball.__init__\<close> produces a centre with
  x = \<open>BALL_RADIUS\<close> and an integer y in the closed interval from \<open>BALL_RADIUS\<close> to
  \<open>SCREEN_HEIGHT - BALL_RADIUS\<close>, an integer dx from \<open>MOVE_AMOUNT\<close> to \<open>2 * MOVE_AMOUNT\<close>,
  hence positive, and an integer dy from \<open>MOVE_AMOUNT - 2\<close> to \<open>MOVE_AMOUNT - 1\<close>.
\<close>

theorem Ball_init_ranges:
  "x (Ball.center (fst (Ball_init r))) = of_int BALL_RADIUS \<and>
   y (Ball.center (fst (Ball_init r))) \<in> \<int> \<and>
   of_int BALL_RADIUS \<le> y (Ball.center (fst (Ball_init r))) \<and>
   y (Ball.center (fst (Ball_init r))) \<le> of_int SCREEN_HEIGHT - of_int BALL_RADIUS \<and>
   dx (velocity (fst (Ball_init r))) \<in> \<int> \<and>
   of_int MOVE_AMOUNT \<le> dx (velocity (fst (Ball_init r))) \<and>
   dx (velocity (fst (Ball_init r))) \<le> 2 * of_int MOVE_AMOUNT \<and>
   0 < dx (velocity (fst (Ball_init r))) \<and>
   dy (velocity (fst (Ball_init r))) \<in> \<int> \<and>
   of_int MOVE_AMOUNT - 2 \<le> dy (velocity (fst (Ball_init r))) \<and>
   dy (velocity (fst (Ball_init r))) \<le> of_int MOVE_AMOUNT - 1"
proof -
  obtain cy r1 where d1: "randint BALL_RADIUS (SCREEN_HEIGHT - BALL_RADIUS) r = (cy, r1)"
    by (cases "randint BALL_RADIUS (SCREEN_HEIGHT - BALL_RADIUS) r")
  obtain vx r2 where d2: "randint MOVE_AMOUNT (2 * MOVE_AMOUNT) r1 = (vx, r2)"
    by (cases "randint MOVE_AMOUNT (2 * MOVE_AMOUNT) r1")
  obtain vy r3 where d3: "randint (MOVE_AMOUNT - 2) (MOVE_AMOUNT - 1) r2 = (vy, r3)"
    by (cases "randint (MOVE_AMOUNT - 2) (MOVE_AMOUNT - 1) r2")
  have b: "fst (Ball_init r) =
      \<lparr>Ball.center = \<lparr>x = of_int BALL_RADIUS, y = of_int cy\<rparr>,
       velocity = \<lparr>dx = of_int vx, dy = of_int vy\<rparr>\<rparr>"
    by (simp add: Ball_init_def d1 d2 d3)
  have "BALL_RADIUS \<le> cy \<and> cy \<le> SCREEN_HEIGHT - BALL_RADIUS"
    using randint_range [of BALL_RADIUS "SCREEN_HEIGHT - BALL_RADIUS" r] d1
    by (simp add: constants)
  moreover have "MOVE_AMOUNT \<le> vx \<and> vx \<le> 2 * MOVE_AMOUNT"
    using randint_range [of MOVE_AMOUNT "2 * MOVE_AMOUNT" r1] d2
    by (simp add: constants)
  moreover have "MOVE_AMOUNT - 2 \<le> vy \<and> vy \<le> MOVE_AMOUNT - 1"
    using randint_range [of "MOVE_AMOUNT - 2" "MOVE_AMOUNT - 1" r2] d3
    by (simp add: constants)
  ultimately show ?thesis
    unfolding b by (simp add: constants)
qed

section \<open>The elapsed time\<close>

text \<open>
  C8. The frame does not depend on the elapsed time: from every state, \<open>update\<close> with any
  two values of \<open>delta_time\<close> gives the same state (ball, paddle, score, key flags and
  random source alike).
\<close>

theorem update_ignores_delta_time: "update t1 g = update t2 g"
  by (simp add: update_def)

section \<open>The paddle's band\<close>

lemma paddle_calls_band:
  "21 < y (Paddle.center p) \<and> y (Paddle.center p) < 279 \<Longrightarrow>
   21 < y (Paddle.center (paddle_calls cs p)) \<and> y (Paddle.center (paddle_calls cs p)) < 279"
proof (induction cs p rule: paddle_calls.induct)
  case (1 p)
  then show ?case by simp
next
  case (2 cs p)
  have "21 < y (Paddle.center (move_up p)) \<and> y (Paddle.center (move_up p)) < 279"
    using "2.prems" by (simp add: move_up_def constants)
  then show ?case using "2.IH" by simp
next
  case (3 cs p)
  have "21 < y (Paddle.center (move_down p)) \<and> y (Paddle.center (move_down p)) < 279"
    using "3.prems" by (simp add: move_down_def constants)
  then show ?case using "3.IH" by simp
qed

lemma paddle_calls_up_32:
  "y (Paddle.center (paddle_calls (replicate 32 MoveUp) Paddle_init)) = 278"
  by (simp add: eval_nat_numeral move_up_def Paddle_init_def constants)

lemma paddle_calls_down_32:
  "y (Paddle.center (paddle_calls (replicate 32 MoveDown) Paddle_init)) = 22"
  by (simp add: eval_nat_numeral move_down_def Paddle_init_def constants)

text \<open>
  C9. From the initial paddle (centre y = \<open>SCREEN_HEIGHT / 2\<close>), after any sequence of
  \<open>move_up\<close> and \<open>move_down\<close> calls the centre's y lies strictly between
  \<open>PADDLE_HEIGHT / 2 - MOVE_AMOUNT\<close> and \<open>SCREEN_HEIGHT - PADDLE_HEIGHT / 2 + MOVE_AMOUNT\<close>,
  that is between 21 and 279. The nominal bounds 25 and 275 are overshot, by less than one
  step: 32 calls of \<open>move_up\<close> reach 278 and 32 calls of \<open>move_down\<close> reach 22.
\<close>

theorem paddle_overshoot_below_one_step:
  "of_int PADDLE_HEIGHT / 2 - of_int MOVE_AMOUNT
     < y (Paddle.center (paddle_calls cs Paddle_init)) \<and>
   y (Paddle.center (paddle_calls cs Paddle_init))
     < of_int SCREEN_HEIGHT - of_int PADDLE_HEIGHT / 2 + of_int MOVE_AMOUNT \<and>
   21 < y (Paddle.center (paddle_calls cs Paddle_init)) \<and>
   y (Paddle.center (paddle_calls cs Paddle_init)) < 279 \<and>
   y (Paddle.center (paddle_calls (replicate 32 MoveUp) Paddle_init))
     > of_int SCREEN_HEIGHT - of_int PADDLE_HEIGHT / 2 \<and>
   y (Paddle.center (paddle_calls (replicate 32 MoveDown) Paddle_init))
     < of_int PADDLE_HEIGHT / 2"
proof -
  have "21 < y (Paddle.center Paddle_init) \<and> y (Paddle.center Paddle_init) < 279"
    by (simp add: Paddle_init_def constants)
  then have "21 < y (Paddle.center (paddle_calls cs Paddle_init)) \<and>
      y (Paddle.center (paddle_calls cs Paddle_init)) < 279"
    by (rule paddle_calls_band)
  then show ?thesis
    by (simp add: paddle_calls_up_32 paddle_calls_down_32 constants)
qed

section \<open>The score step of a frame\<close>

text \<open>
  C10. With the paddle at its constructed x of \<open>SCREEN_WIDTH - PADDLE_WIDTH = 390\<close>, a miss
  and a hit never both occur in one call of \<open>update\<close>: when the miss check fires, the hit
  guard is false in the state it leaves. So a frame changes the score by exactly one of
  \<open>- SCORE_MISS\<close> (the miss check fired), \<open>+ SCORE_HIT\<close> (no miss, the hit check fired)
  and 0.
\<close>

theorem frame_score_step:
  assumes px: "x (Paddle.center (paddle g)) = of_int (SCREEN_WIDTH - PADDLE_WIDTH)"
  shows "\<not> (miss_guard (check_keys (g\<lparr>ball := advance (ball g)\<rparr>)) \<and>
            hit_guard (check_miss (check_keys (g\<lparr>ball := advance (ball g)\<rparr>)))) \<and>
         score (update t g) =
           (if miss_guard (check_keys (g\<lparr>ball := advance (ball g)\<rparr>))
            then score g - SCORE_MISS
            else if hit_guard (check_miss (check_keys (g\<lparr>ball := advance (ball g)\<rparr>)))
            then score g + SCORE_HIT
            else score g)"
proof -
  define g2 where "g2 = check_keys (g\<lparr>ball := advance (ball g)\<rparr>)"
  have px2: "x (Paddle.center (paddle g2)) = of_int (SCREEN_WIDTH - PADDLE_WIDTH)"
    using px check_keys_frame [of "g\<lparr>ball := advance (ball g)\<rparr>"] by (simp add: g2_def)
  have s2: "score g2 = score g"
    using check_keys_frame [of "g\<lparr>ball := advance (ball g)\<rparr>"] by (simp add: g2_def)
  have upd: "score (update t g) = score (check_hit (check_miss g2))"
    by (simp add: update_def Let_def g2_def check_bounce_frame)
  show ?thesis
  proof (cases "miss_guard g2")
    case True
    have nh: "\<not> hit_guard (check_miss g2)" by (rule no_hit_after_miss [OF px2 True])
    have "score (check_hit (check_miss g2)) = score g - SCORE_MISS"
      using nh by (simp add: check_hit_cases check_miss_fires [OF True] s2)
    with True nh upd show ?thesis unfolding g2_def [symmetric] by simp
  next
    case False
    have "score (check_hit (check_miss g2)) =
        (if hit_guard (check_miss g2) then score g + SCORE_HIT else score g)"
      by (simp add: check_hit_cases check_miss_idle [OF False] s2)
    with False upd show ?thesis unfolding g2_def [symmetric] by simp
  qed
qed

text \<open>
  The theorem at three states with the paddle at (390, 150): a ball that advances to
  (385, 150) and is hit, a ball that advances to 404 and is missed, and a ball in mid-field.
\<close>

theorem frame_score_step_witness:
  "score (update 0
      \<lparr>ball = \<lparr>Ball.center = \<lparr>x = 380, y = 150\<rparr>, velocity = \<lparr>dx = 5, dy = 0\<rparr>\<rparr>,
       paddle = \<lparr>Paddle.center = \<lparr>x = 390, y = 150\<rparr>\<rparr>, score = 0,
       holding_left = False, holding_right = False, rng = (\<lambda>n. 0)\<rparr>) = 1 \<and>
   score (update 0
      \<lparr>ball = \<lparr>Ball.center = \<lparr>x = 399, y = 150\<rparr>, velocity = \<lparr>dx = 5, dy = 0\<rparr>\<rparr>,
       paddle = \<lparr>Paddle.center = \<lparr>x = 390, y = 150\<rparr>\<rparr>, score = 0,
       holding_left = False, holding_right = False, rng = (\<lambda>n. 0)\<rparr>) = - 5 \<and>
   score (update 0
      \<lparr>ball = \<lparr>Ball.center = \<lparr>x = 100, y = 150\<rparr>, velocity = \<lparr>dx = 5, dy = 0\<rparr>\<rparr>,
       paddle = \<lparr>Paddle.center = \<lparr>x = 390, y = 150\<rparr>\<rparr>, score = 0,
       holding_left = False, holding_right = False, rng = (\<lambda>n. 0)\<rparr>) = 0"
  using frame_score_step
    [of "\<lparr>ball = \<lparr>Ball.center = \<lparr>x = 380, y = 150\<rparr>, velocity = \<lparr>dx = 5, dy = 0\<rparr>\<rparr>,
          paddle = \<lparr>Paddle.center = \<lparr>x = 390, y = 150\<rparr>\<rparr>, score = 0,
          holding_left = False, holding_right = False, rng = (\<lambda>n. 0)\<rparr>" 0]
    frame_score_step
    [of "\<lparr>ball = \<lparr>Ball.center = \<lparr>x = 399, y = 150\<rparr>, velocity = \<lparr>dx = 5, dy = 0\<rparr>\<rparr>,
          paddle = \<lparr>Paddle.center = \<lparr>x = 390, y = 150\<rparr>\<rparr>, score = 0,
          holding_left = False, holding_right = False, rng = (\<lambda>n. 0)\<rparr>" 0]
    frame_score_step
    [of "\<lparr>ball = \<lparr>Ball.center = \<lparr>x = 100, y = 150\<rparr>, velocity = \<lparr>dx = 5, dy = 0\<rparr>\<rparr>,
          paddle = \<lparr>Paddle.center = \<lparr>x = 390, y = 150\<rparr>\<rparr>, score = 0,
          holding_left = False, holding_right = False, rng = (\<lambda>n. 0)\<rparr>" 0]
  by (simp add: miss_guard_def hit_guard_def check_keys_def check_miss_def advance_def
      restart_def randint_def Let_def constants)

end
